theory Spec2Isabelle
  imports Complex_Main
begin

section \<open>JavaScript values\<close>

text \<open>
  The ledger code is JavaScript: its results depend on truthiness, on the implicit
  conversions between strings and numbers, and on \<open>NaN\<close>. The values the code handles are
  modelled by \<open>jsval\<close>. A Number is \<open>NaN\<close> or a finite number; finite numbers are exact
  rationals, so the rounding of IEEE doubles, the infinities and the sign of zero are not
  part of the model. An object (an array, a plain object, an Immutable collection) only
  ever meets the operators below through its conversion to a primitive, so \<open>JObj s\<close> stands
  for an object whose string conversion is \<open>s\<close>. Strings are lists of 8-bit characters.
\<close>

datatype jsnum = NaN | Fin rat

datatype jsval = Undefined | Null | JBool bool | JNum jsnum | JStr string | JObj string

datatype js_error = TypeError

subsection \<open>Number arithmetic and comparison\<close>

fun num_add :: "jsnum \<Rightarrow> jsnum \<Rightarrow> jsnum" where
  "num_add (Fin a) (Fin b) = Fin (a + b)"
| "num_add _ _ = NaN"

fun num_sub :: "jsnum \<Rightarrow> jsnum \<Rightarrow> jsnum" where
  "num_sub (Fin a) (Fin b) = Fin (a - b)"
| "num_sub _ _ = NaN"

fun num_mul :: "jsnum \<Rightarrow> jsnum \<Rightarrow> jsnum" where
  "num_mul (Fin a) (Fin b) = Fin (a * b)"
| "num_mul _ _ = NaN"

text \<open>\<open>a < b\<close> on Numbers is false as soon as one side is \<open>NaN\<close>; \<open>a >= b\<close> is not its negation.\<close>

fun num_lt :: "jsnum \<Rightarrow> jsnum \<Rightarrow> bool" where
  "num_lt (Fin a) (Fin b) = (a < b)"
| "num_lt _ _ = False"

fun num_ge :: "jsnum \<Rightarrow> jsnum \<Rightarrow> bool" where
  "num_ge (Fin a) (Fin b) = (b \<le> a)"
| "num_ge _ _ = False"

subsection \<open>Strings to numbers\<close>

definition is_digit :: "char \<Rightarrow> bool" where
  "is_digit c = (48 \<le> (of_char c :: nat) \<and> (of_char c :: nat) \<le> 57)"

definition is_space :: "char \<Rightarrow> bool" where
  "is_space c = (let n = (of_char c :: nat) in (9 \<le> n \<and> n \<le> 13) \<or> n = 32)"

definition digits_val :: "string \<Rightarrow> int" where
  "digits_val ds = foldl (\<lambda>n c. 10 * n + (of_char c - 48)) 0 ds"

definition take_sign :: "string \<Rightarrow> bool \<times> string" where
  "take_sign s = (case s of [] \<Rightarrow> (False, s)
     | c # r \<Rightarrow> if c = CHR ''-'' then (True, r) else if c = CHR ''+'' then (False, r) else (False, s))"

definition take_exponent :: "string \<Rightarrow> int \<times> string" where
  "take_exponent s = (case s of [] \<Rightarrow> (0, s)
     | c # r \<Rightarrow>
        if c = CHR ''e'' \<or> c = CHR ''E'' then
          (let (neg, r1) = take_sign r; ds = takeWhile is_digit r1 in
           if ds = [] then (0, s)
           else (if neg then - digits_val ds else digits_val ds, dropWhile is_digit r1))
        else (0, s))"

text \<open>
  The longest prefix of \<open>s\<close> that is a signed decimal literal (digits, an optional fraction,
  an optional exponent), with its value and the rest of the string; \<open>None\<close> when no prefix
  is one. The literal \<open>Infinity\<close> is not a finite number and is not recognised here.
\<close>

definition parse_decimal :: "string \<Rightarrow> (rat \<times> string) option" where
  "parse_decimal s =
    (let (neg, s1) = take_sign s;
         ip = takeWhile is_digit s1;
         s2 = dropWhile is_digit s1;
         (fp, s3) = (case s2 of [] \<Rightarrow> ([], s2)
            | c # r \<Rightarrow> if c = CHR ''.'' then (takeWhile is_digit r, dropWhile is_digit r) else ([], s2))
     in if ip = [] \<and> fp = [] then None
        else (let (ex, s4) = take_exponent s3;
                  m = of_int (digits_val (ip @ fp)) / 10 ^ length fp * 10 powi ex
              in Some (if neg then - m else m, s4)))"

definition trim :: "string \<Rightarrow> string" where
  "trim s = rev (dropWhile is_space (rev (dropWhile is_space s)))"

text \<open>
  The conversion \<open>Number(s)\<close> of a string: the empty or blank string is 0, a decimal
  literal is its value, anything else is \<open>NaN\<close> (the \<open>0x\<close>, \<open>0o\<close> and \<open>0b\<close> forms are not
  modelled).
\<close>

definition string_to_number :: "string \<Rightarrow> jsnum" where
  "string_to_number s =
    (let t = trim s in
     if t = [] then Fin 0
     else (case parse_decimal t of
             None \<Rightarrow> NaN
           | Some (v, r) \<Rightarrow> if r = [] then Fin v else NaN))"

subsection \<open>Numbers to strings\<close>

definition digit_char :: "nat \<Rightarrow> char" where
  "digit_char d = ''0123456789'' ! d"

text \<open>The decimal digits of an integer \<open>n \<ge> 0\<close>, most significant first.\<close>

function int_digits :: "int \<Rightarrow> string" where
  "int_digits n =
    (if n < 10 then [digit_char (nat n)]
     else int_digits (n div 10) @ [digit_char (nat (n mod 10))])"
  by pat_completeness auto
termination
  by (relation "measure nat") auto

declare int_digits.simps [simp del]

text \<open>For \<open>x > 0\<close>, the \<open>n\<close> with \<open>10 ^ (n - 1) \<le> x < 10 ^ n\<close>.\<close>

definition dec_exponent :: "rat \<Rightarrow> int" where
  "dec_exponent x =
    (let (p, q) = quotient_of x;
         e = int (length (int_digits p)) - int (length (int_digits q))
     in if 10 powi e \<le> x then e + 1 else e)"

text \<open>
  For \<open>x > 0\<close>, the significant digits of \<open>x\<close> (at most 17, trailing zeros removed) and the
  position \<open>n\<close> of the decimal point: \<open>x\<close> is \<open>0.ds * 10 ^ n\<close>. JavaScript prints the shortest
  digits that read back as the same double; on exact numbers with at most 17 digits
  these are the digits of the number.
\<close>

definition sig_digits :: "rat \<Rightarrow> string \<times> int" where
  "sig_digits x =
    (let n = dec_exponent x;
         s = \<lfloor>x * 10 powi (17 - n) + 1 / 2\<rfloor>;
         ds = rev (dropWhile (\<lambda>c. c = CHR ''0'') (rev (int_digits s)))
     in (ds, if 10 ^ 17 \<le> s then n + 1 else n))"

definition pos_to_string :: "rat \<Rightarrow> string" where
  "pos_to_string x =
    (let (ds, n) = sig_digits x; k = int (length ds) in
     if k \<le> n \<and> n \<le> 21 then ds @ replicate (nat (n - k)) CHR ''0''
     else if 0 < n \<and> n \<le> 21 then take (nat n) ds @ ''.'' @ drop (nat n) ds
     else if - 6 < n \<and> n \<le> 0 then ''0.'' @ replicate (nat (- n)) CHR ''0'' @ ds
     else (let e = n - 1;
               es = (if e < 0 then ''-'' else ''+'') @ int_digits \<bar>e\<bar>
           in if k = 1 then ds @ ''e'' @ es
              else take 1 ds @ ''.'' @ drop 1 ds @ ''e'' @ es))"

text \<open>
  \<open>String(x)\<close> of a Number: plain decimal notation between \<open>1e-6\<close> and \<open>1e21\<close>, exponent
  notation outside.
\<close>

definition num_to_string :: "jsnum \<Rightarrow> string" where
  "num_to_string v =
    (case v of
       NaN \<Rightarrow> ''NaN''
     | Fin x \<Rightarrow>
         if x = 0 then ''0''
         else if x < 0 then ''-'' @ pos_to_string (- x)
         else pos_to_string x)"

text \<open>\<open>x.toFixed(f)\<close>: \<open>f\<close> digits after the point, the nearest value, ties upwards.\<close>

definition toFixed :: "nat \<Rightarrow> jsnum \<Rightarrow> string" where
  "toFixed f v =
    (case v of
       NaN \<Rightarrow> ''NaN''
     | Fin x \<Rightarrow>
         if 10 ^ 21 \<le> \<bar>x\<bar> then num_to_string v
         else (let n = \<lfloor>\<bar>x\<bar> * 10 ^ f + 1 / 2\<rfloor>;
                   m = int_digits n;
                   m' = replicate (Suc f - length m) CHR ''0'' @ m;
                   k = length m'
               in (if x < 0 then ''-'' else [])
                  @ (if f = 0 then m' else take (k - f) m' @ ''.'' @ drop (k - f) m')))"

subsection \<open>Conversions and operators on values\<close>

definition truthy :: "jsval \<Rightarrow> bool" where
  "truthy v =
    (case v of
       Undefined \<Rightarrow> False
     | Null \<Rightarrow> False
     | JBool b \<Rightarrow> b
     | JNum NaN \<Rightarrow> False
     | JNum (Fin x) \<Rightarrow> x \<noteq> 0
     | JStr s \<Rightarrow> s \<noteq> []
     | JObj s \<Rightarrow> True)"

text \<open>\<open>a || b\<close> and \<open>a && b\<close> return one of their operands, not a boolean.\<close>

definition js_or :: "jsval \<Rightarrow> jsval \<Rightarrow> jsval" where
  "js_or a b = (if truthy a then a else b)"

definition js_and :: "jsval \<Rightarrow> jsval \<Rightarrow> jsval" where
  "js_and a b = (if truthy a then b else a)"

text \<open>\<open>v == null\<close> holds of \<open>null\<close> and \<open>undefined\<close> only.\<close>

definition is_nullish :: "jsval \<Rightarrow> bool" where
  "is_nullish v = (v = Undefined \<or> v = Null)"

definition to_string :: "jsval \<Rightarrow> string" where
  "to_string v =
    (case v of
       Undefined \<Rightarrow> ''undefined''
     | Null \<Rightarrow> ''null''
     | JBool b \<Rightarrow> (if b then ''true'' else ''false'')
     | JNum n \<Rightarrow> num_to_string n
     | JStr s \<Rightarrow> s
     | JObj s \<Rightarrow> s)"

definition to_number :: "jsval \<Rightarrow> jsnum" where
  "to_number v =
    (case v of
       Undefined \<Rightarrow> NaN
     | Null \<Rightarrow> Fin 0
     | JBool b \<Rightarrow> Fin (if b then 1 else 0)
     | JNum n \<Rightarrow> n
     | JStr s \<Rightarrow> string_to_number s
     | JObj s \<Rightarrow> string_to_number s)"

definition is_stringy :: "jsval \<Rightarrow> bool" where
  "is_stringy v = (case v of JStr s \<Rightarrow> True | JObj s \<Rightarrow> True | _ \<Rightarrow> False)"

fun str_lt :: "string \<Rightarrow> string \<Rightarrow> bool" where
  "str_lt [] [] = False"
| "str_lt [] (y # ys) = True"
| "str_lt (x # xs) [] = False"
| "str_lt (x # xs) (y # ys) = (if x = y then str_lt xs ys else (of_char x :: nat) < of_char y)"

text \<open>
  The relational operators: two strings are compared character by character, anything
  else as Numbers.
\<close>

definition js_lt :: "jsval \<Rightarrow> jsval \<Rightarrow> bool" where
  "js_lt a b =
    (if is_stringy a \<and> is_stringy b then str_lt (to_string a) (to_string b)
     else num_lt (to_number a) (to_number b))"

definition js_gt :: "jsval \<Rightarrow> jsval \<Rightarrow> bool" where
  "js_gt a b = js_lt b a"

definition js_ge :: "jsval \<Rightarrow> jsval \<Rightarrow> bool" where
  "js_ge a b =
    (if is_stringy a \<and> is_stringy b then \<not> str_lt (to_string a) (to_string b)
     else num_ge (to_number a) (to_number b))"

text \<open>\<open>a + b\<close> concatenates as soon as one operand is a string (or an object).\<close>

definition js_plus :: "jsval \<Rightarrow> jsval \<Rightarrow> jsval" where
  "js_plus a b =
    (if is_stringy a \<or> is_stringy b then JStr (to_string a @ to_string b)
     else JNum (num_add (to_number a) (to_number b)))"

definition js_minus :: "jsval \<Rightarrow> jsval \<Rightarrow> jsval" where
  "js_minus a b = JNum (num_sub (to_number a) (to_number b))"

definition js_times :: "jsval \<Rightarrow> jsval \<Rightarrow> jsval" where
  "js_times a b = JNum (num_mul (to_number a) (to_number b))"

text \<open>
  \<open>parseFloat(v)\<close> reads the longest numeric prefix of \<open>String(v)\<close>; \<open>parseInt(v)\<close> reads
  the leading integer digits of \<open>String(v)\<close>. Both skip leading blanks and give \<open>NaN\<close>
  when no digit is found.
\<close>

definition parseFloat :: "jsval \<Rightarrow> jsnum" where
  "parseFloat v =
    (case parse_decimal (dropWhile is_space (to_string v)) of
       None \<Rightarrow> NaN
     | Some (x, r) \<Rightarrow> Fin x)"

definition parseInt :: "jsval \<Rightarrow> jsnum" where
  "parseInt v =
    (let (neg, s1) = take_sign (dropWhile is_space (to_string v));
         ds = takeWhile is_digit s1
     in if ds = [] then NaN
        else Fin (if neg then - of_int (digits_val ds) else of_int (digits_val ds)))"

fun split_at :: "char \<Rightarrow> string \<Rightarrow> string list" where
  "split_at c [] = [[]]"
| "split_at c (x # xs) =
    (if x = c then [] # split_at c xs
     else (case split_at c xs of [] \<Rightarrow> [[x]] | y # ys \<Rightarrow> (x # y) # ys))"

definition lower_char :: "char \<Rightarrow> char" where
  "lower_char c =
    (case map_of (zip ''ABCDEFGHIJKLMNOPQRSTUVWXYZ'' ''abcdefghijklmnopqrstuvwxyz'') c of
       None \<Rightarrow> c
     | Some d \<Rightarrow> d)"

definition toLowerCase :: "string \<Rightarrow> string" where
  "toLowerCase s = map lower_char s"

section \<open>The ledger snapshot\<close>

text \<open>
  Modelled from the spec: the accessor modules (\<open>ledgerState\<close>, \<open>siteSettingsState\<close>,
  \<open>urlUtil\<close>, \<open>settings\<close>, \<open>appConfig\<close>) are not among the sources. Following the data
  model of the spec they are plain reads and writes of an immutable snapshot: an
  Immutable Map is a function from keys to values in which an absent key reads as
  \<open>undefined\<close>, and a write returns a new snapshot.
\<close>

type_synonym imap = "string \<Rightarrow> jsval"

record publisher =
  duration :: jsval
  visits :: jsval
  scores :: "jsval \<Rightarrow> jsval"
  options :: imap

record app_state =
  siteSettings :: "string \<Rightarrow> imap"
  synopsisOptions :: imap
  publishers :: "string \<Rightarrow> publisher"
  info :: imap
  firstRunTimestamp :: jsval

datatype setting =
    PAYMENTS_ENABLED
  | PAYMENTS_NOTIFICATIONS
  | PAYMENTS_NOTIFICATION_RECONCILE_SOON_TIMESTAMP
  | PAYMENTS_NOTIFICATION_ADD_FUNDS_TIMESTAMP
  | PAYMENTS_NOTIFICATION_TRY_PAYMENTS_DISMISSED
  | PAYMENTS_ALLOW_NON_VERIFIED

text \<open>
  What the code reads from its surroundings: the settings store behind \<open>getSetting\<close>,
  the host pattern of a publisher key, and the grace delay of the application
  configuration.
\<close>

record env =
  getSetting :: "setting \<Rightarrow> jsval"
  getHostPattern :: "string \<Rightarrow> string"
  delayNotificationTryPayments :: jsval

definition getInfoProp :: "app_state \<Rightarrow> string \<Rightarrow> jsval" where
  "getInfoProp state prop = info state prop"

definition getSynopsisOption :: "app_state \<Rightarrow> string \<Rightarrow> jsval" where
  "getSynopsisOption state prop = synopsisOptions state prop"

definition setSynopsisOption :: "app_state \<Rightarrow> string \<Rightarrow> jsval \<Rightarrow> app_state" where
  "setSynopsisOption state prop v = state\<lparr>synopsisOptions := (synopsisOptions state)(prop := v)\<rparr>"

definition getPublisher :: "app_state \<Rightarrow> string \<Rightarrow> publisher" where
  "getPublisher state key = publishers state key"

definition getPublisherOption :: "app_state \<Rightarrow> string \<Rightarrow> string \<Rightarrow> jsval" where
  "getPublisherOption state key prop = options (publishers state key) prop"

definition getSettingsProp :: "app_state \<Rightarrow> string \<Rightarrow> string \<Rightarrow> jsval" where
  "getSettingsProp state pattern prop = siteSettings state pattern prop"

section \<open>Publisher eligibility (app/common/lib/ledgerUtil.js)\<close>

definition blockedP :: "env \<Rightarrow> app_state \<Rightarrow> string \<Rightarrow> bool" where
  "blockedP e state publisherKey =
    (let pattern = getHostPattern e publisherKey;
         ledgerPaymentsShown = getSettingsProp state pattern ''ledgerPaymentsShown''
     in ledgerPaymentsShown = JBool False)"

definition eligibleP :: "app_state \<Rightarrow> string \<Rightarrow> bool" where
  "eligibleP state publisherKey =
    (let scorekeeper = getSynopsisOption state ''scorekeeper'';
         minPublisherDuration = getSynopsisOption state ''minPublisherDuration'';
         minPublisherVisits = getSynopsisOption state ''minPublisherVisits'';
         publisher = getPublisher state publisherKey
     in js_gt (scores publisher scorekeeper) (JNum (Fin 0))
        \<and> js_ge (duration publisher) minPublisherDuration
        \<and> js_ge (visits publisher) minPublisherVisits)"

text \<open>
  \<open>stickyP\<close> returns \<open>result === undefined || result\<close>: \<open>true\<close> when nothing was
  found, else the value found.
\<close>

definition stickyP :: "env \<Rightarrow> app_state \<Rightarrow> string \<Rightarrow> jsval" where
  "stickyP e state publisherKey =
    (let pattern = getHostPattern e publisherKey;
         result = getSettingsProp state pattern ''ledgerPayments'';
         result =
           (if is_nullish result then
              (let excluded = getPublisherOption state publisherKey ''exclude'' in
               if is_nullish excluded then result else JBool (\<not> truthy excluded))
            else result)
     in js_or (JBool (result = Undefined)) result)"

definition contributeP :: "env \<Rightarrow> app_state \<Rightarrow> string \<Rightarrow> jsval" where
  "contributeP e state publisherKey =
    (let publisher = getPublisher state publisherKey in
     js_and
       (js_and
          (js_or (stickyP e state publisherKey) (JBool (options publisher ''exclude'' \<noteq> JBool True)))
          (JBool (eligibleP state publisherKey)))
       (JBool (\<not> blockedP e state publisherKey)))"

text \<open>
  \<open>visibleP\<close> assigns the snapshot with the cached option to its own parameter \<open>state\<close>
  and goes on with it. \<open>visibleP_body\<close> gives the returned value together with the value
  of that local variable at the \<open>return\<close>; the function itself returns the first
  component only.
\<close>

definition visibleP_body :: "env \<Rightarrow> app_state \<Rightarrow> string \<Rightarrow> jsval \<times> app_state" where
  "visibleP_body e state0 publisherKey =
    (let publisher = getPublisher state0 publisherKey;
         showOnlyVerified0 = getSynopsisOption state0 ''showOnlyVerified'';
         showOnlyVerified =
           (if is_nullish showOnlyVerified0 then getSetting e PAYMENTS_ALLOW_NON_VERIFIED
            else showOnlyVerified0);
         state =
           (if is_nullish showOnlyVerified0
            then setSynopsisOption state0 ''showOnlyVerified'' showOnlyVerified
            else state0);
         publisherOptions = options publisher;
         onlyVerified = (\<not> truthy showOnlyVerified);
         deletedByUser = blockedP e state publisherKey;
         eligibleByStats = eligibleP state publisherKey;
         verifiedPublisher = publisherOptions ''verified''
     in (js_and
           (js_and (JBool eligibleByStats)
              (js_or (js_and (JBool onlyVerified) verifiedPublisher) (JBool (\<not> onlyVerified))))
           (JBool (\<not> deletedByUser)),
         state))"

definition visibleP :: "env \<Rightarrow> app_state \<Rightarrow> string \<Rightarrow> jsval" where
  "visibleP e state publisherKey = fst (visibleP_body e state publisherKey)"

section \<open>Wallet status (app/common/lib/ledgerUtil.js)\<close>

text \<open>
  The ledger data handed to the wallet functions: its entries with primitive values, the
  list of transactions and the map of rates (each absent or present).
\<close>

record ledgerData =
  props :: imap
  transactions :: "jsval list option"
  rates :: "(string \<Rightarrow> jsval option) option"

definition hasIn_rates_BTC :: "ledgerData \<Rightarrow> bool" where
  "hasIn_rates_BTC ld = (case rates ld of None \<Rightarrow> False | Some m \<Rightarrow> m ''BTC'' \<noteq> None)"

text \<open>
  \<open>batToCurrencyString\<close> multiplies with BigNumber, which is exact on decimals; a rate
  that is not a number gives the string \<open>NaN\<close> here.
\<close>

definition batToCurrencyString :: "jsval \<Rightarrow> ledgerData option \<Rightarrow> string" where
  "batToCurrencyString bat ledgerData =
    (let balance = to_number (js_or bat (JNum (Fin 0)));
         currency = ''USD''
     in if balance = Fin 0 then ''0.00 '' @ currency
        else (case ledgerData of
                None \<Rightarrow> []
              | Some ld \<Rightarrow>
                  if \<not> hasIn_rates_BTC ld then []
                  else (let rate = js_or (props ld ''currentRate'') (JNum (Fin 0));
                            converted = toFixed 2 (num_mul (string_to_number (to_string rate)) balance)
                        in converted @ '' '' @ currency)))"

record status =
  status_id :: string
  status_funds :: "string option"

definition walletStatus :: "ledgerData \<Rightarrow> status" where
  "walletStatus ledgerData =
    (if truthy (props ledgerData ''error'') then
       \<lparr>status_id = ''statusOnError'', status_funds = None\<rparr>
     else if truthy (props ledgerData ''created'') then
       (let pendingFunds = toFixed 2 (to_number (js_or (props ledgerData ''unconfirmed'') (JNum (Fin 0)))) in
        if js_lt
             (js_plus (JStr pendingFunds) (JNum (to_number (js_or (props ledgerData ''balance'') (JNum (Fin 0))))))
             (js_times (JNum (Fin (9 / 10))) (JNum (to_number (js_or (props ledgerData ''bat'') (JNum (Fin 0))))))
        then \<lparr>status_id = ''insufficientFundsStatus'', status_funds = None\<rparr>
        else if js_gt (JStr pendingFunds) (JNum (Fin 0)) then
          \<lparr>status_id = ''pendingFundsStatus'',
           status_funds =
             Some (pendingFunds @ '' BAT (''
                   @ batToCurrencyString (JStr pendingFunds) (Some ledgerData) @ '')'')\<rparr>
        else if (case transactions ledgerData of None \<Rightarrow> False | Some ts \<Rightarrow> 0 < length ts) then
          \<lparr>status_id = ''defaultWalletStatus'', status_funds = None\<rparr>
        else \<lparr>status_id = ''createdWalletStatus'', status_funds = None\<rparr>)
     else if truthy (props ledgerData ''creating'') then
       \<lparr>status_id = ''creatingWalletStatus'', status_funds = None\<rparr>
     else \<lparr>status_id = ''createWalletStatus'', status_funds = None\<rparr>)"

section \<open>Media telemetry (app/common/lib/ledgerUtil.js)\<close>

text \<open>
  \<open>getMediaKey(id, type)\<close>: \<open>null\<close> when either argument is \<open>null\<close> or \<open>undefined\<close>,
  otherwise the template string built from \<open>type.toLowerCase()\<close> and \<open>id\<close>. A type that is
  not a string has no \<open>toLowerCase\<close> method and the call throws.
\<close>

definition getMediaKey :: "jsval \<Rightarrow> jsval \<Rightarrow> js_error + jsval" where
  "getMediaKey ident type =
    (if is_nullish ident \<or> is_nullish type then Inr Null
     else (case type of
             JStr t \<Rightarrow> Inr (JStr (toLowerCase t @ ''_'' @ to_string ident))
           | _ \<Rightarrow> Inl TypeError))"

text \<open>Reading an array at an index: \<open>undefined\<close> past its end.\<close>

definition js_index :: "string list \<Rightarrow> nat \<Rightarrow> jsval" where
  "js_index xs i = (if i < length xs then JStr (xs ! i) else Undefined)"

text \<open>The \<open>for\<close> loop of \<open>getYouTubeDuration\<close>, from index \<open>i\<close> with the running total \<open>time\<close>.\<close>

function durationLoop :: "string list \<Rightarrow> string list \<Rightarrow> nat \<Rightarrow> jsnum \<Rightarrow> jsnum" where
  "durationLoop startTime endTime i time =
    (if i < length startTime then
       durationLoop startTime endTime (Suc i)
         (num_add time (num_sub (parseFloat (js_index endTime i)) (parseFloat (js_index startTime i))))
     else time)"
  by pat_completeness auto
termination
  by (relation "measure (\<lambda>(startTime, endTime, i, time). length startTime - i)") auto

declare durationLoop.simps [simp del]

text \<open>
  \<open>data\<close> is \<open>None\<close> for \<open>null\<close> or \<open>undefined\<close>, else the object's properties. Only a
  string has a \<open>split\<close> method: any other value of \<open>st\<close> or \<open>et\<close> throws.
\<close>

definition getYouTubeDuration :: "imap option \<Rightarrow> js_error + jsnum" where
  "getYouTubeDuration data =
    (let time = Fin 0 in
     case data of
       None \<Rightarrow> Inr time
     | Some d \<Rightarrow>
         if is_nullish (d ''st'') \<or> is_nullish (d ''et'') then Inr time
         else (case d ''st'' of
                 JStr st \<Rightarrow>
                   (case d ''et'' of
                      JStr et \<Rightarrow>
                        (let startTime = split_at CHR '','' st;
                             endTime = split_at CHR '','' et
                         in if length startTime \<noteq> length endTime then Inr time
                            else (let time = durationLoop startTime endTime 0 time;
                                      time = num_mul time (Fin 1000)
                                  in Inr (parseInt (JNum time))))
                    | _ \<Rightarrow> Inl TypeError)
               | _ \<Rightarrow> Inl TypeError))"

section \<open>Notification scheduler (src/unnamed/part_000)\<close>

text \<open>
  The rules of the periodic check: \<open>onInterval\<close> and what it calls. The timer itself
  (\<open>init\<close>), the launch check and the handler of button responses do not take part in
  these rules and are left out.
\<close>

definition miliseconds_day :: rat where
  "miliseconds_day = 24 * 60 * 60 * 1000"

definition nextAddFundsTime :: rat where
  "nextAddFundsTime = 3 * miliseconds_day"

text \<open>A translated text is known by the key it was looked up with.\<close>

datatype l10n = Translation string

definition text_hello :: l10n where
  "text_hello = Translation ''updateHello''"

definition text_addFunds :: l10n where
  "text_addFunds = Translation ''addFundsNotification''"

definition text_tryPayments :: l10n where
  "text_tryPayments = Translation ''notificationTryPayments''"

definition text_reconciliation :: l10n where
  "text_reconciliation = Translation ''reconciliationNotification''"

record button =
  b_text :: l10n
  className :: "string option"

record display_options =
  style :: string
  persist :: bool

record notification =
  n_from :: string
  n_greeting :: l10n
  n_message :: l10n
  n_buttons :: "button list"
  n_options :: display_options

text \<open>The calls the scheduler makes on \<open>appActions\<close>, in the order it makes them.\<close>

datatype action = ChangeSetting setting jsval | ShowNotification notification

definition displayOptions :: display_options where
  "displayOptions = \<lparr>style = ''greetingStyle'', persist = False\<rparr>"

definition sufficientBalanceToReconcile :: "app_state \<Rightarrow> jsval" where
  "sufficientBalanceToReconcile state =
    (let balance = to_number (js_or (getInfoProp state ''balance'') (JNum (Fin 0)));
         unconfirmed = to_number (js_or (getInfoProp state ''unconfirmed'') (JNum (Fin 0)));
         bat = getInfoProp state ''bat''
     in js_and bat
          (JBool (js_gt (JNum (num_add balance unconfirmed))
                        (js_times (JNum (Fin (9 / 10))) (JNum (to_number bat))))))"

text \<open>
  A tick runs to completion at once: every \<open>new Date().getTime()\<close> it evaluates is taken
  to give the same reading \<open>now\<close>, in milliseconds since the epoch.
\<close>

definition shouldShowNotificationReviewPublishers :: "env \<Rightarrow> nat \<Rightarrow> bool" where
  "shouldShowNotificationReviewPublishers e now =
    (let nextTime = getSetting e PAYMENTS_NOTIFICATION_RECONCILE_SOON_TIMESTAMP in
     \<not> truthy nextTime \<or> js_gt (JNum (Fin (of_nat now))) nextTime)"

definition shouldShowNotificationAddFunds :: "env \<Rightarrow> nat \<Rightarrow> bool" where
  "shouldShowNotificationAddFunds e now =
    (let nextTime = getSetting e PAYMENTS_NOTIFICATION_ADD_FUNDS_TIMESTAMP in
     \<not> truthy nextTime \<or> js_gt (JNum (Fin (of_nat now))) nextTime)"

definition reviewPublishersNotification :: notification where
  "reviewPublishersNotification =
    \<lparr>n_from = ''ledger'',
     n_greeting = text_hello,
     n_message = text_reconciliation,
     n_buttons =
       [\<lparr>b_text = Translation ''turnOffNotifications'', className = None\<rparr>,
        \<lparr>b_text = Translation ''dismiss'', className = None\<rparr>,
        \<lparr>b_text = Translation ''reviewSites'', className = Some ''primaryButton''\<rparr>],
     n_options = displayOptions\<rparr>"

definition addFundsNotification :: notification where
  "addFundsNotification =
    \<lparr>n_from = ''ledger'',
     n_greeting = text_hello,
     n_message = text_addFunds,
     n_buttons =
       [\<lparr>b_text = Translation ''turnOffNotifications'', className = None\<rparr>,
        \<lparr>b_text = Translation ''updateLater'', className = None\<rparr>,
        \<lparr>b_text = Translation ''addFunds'', className = Some ''primaryButton''\<rparr>],
     n_options = displayOptions\<rparr>"

definition tryPaymentsNotification :: notification where
  "tryPaymentsNotification =
    \<lparr>n_from = ''ledger'',
     n_greeting = Translation ''updateHello'',
     n_message = text_tryPayments,
     n_buttons =
       [\<lparr>b_text = Translation ''noThanks'', className = None\<rparr>,
        \<lparr>b_text = Translation ''notificationTryPaymentsYes'', className = Some ''primaryButton''\<rparr>],
     n_options = \<lparr>style = ''greetingStyle'', persist = False\<rparr>\<rparr>"

definition showReviewPublishers :: "jsval \<Rightarrow> action list" where
  "showReviewPublishers nextTime =
    [ChangeSetting PAYMENTS_NOTIFICATION_RECONCILE_SOON_TIMESTAMP nextTime,
     ShowNotification reviewPublishersNotification]"

definition showAddFunds :: "nat \<Rightarrow> action list" where
  "showAddFunds now =
    (let nextTime = js_plus (JNum (Fin (of_nat now))) (JNum (Fin nextAddFundsTime)) in
     [ChangeSetting PAYMENTS_NOTIFICATION_ADD_FUNDS_TIMESTAMP nextTime,
      ShowNotification addFundsNotification])"

definition showEnabledNotifications :: "env \<Rightarrow> nat \<Rightarrow> app_state \<Rightarrow> action list" where
  "showEnabledNotifications e now state =
    (let reconcileStamp = getInfoProp state ''reconcileStamp'' in
     if \<not> truthy reconcileStamp then []
     else if js_lt (js_minus reconcileStamp (JNum (Fin (of_nat now)))) (JNum (Fin miliseconds_day)) then
       (if truthy (sufficientBalanceToReconcile state) then
          (if shouldShowNotificationReviewPublishers e now then
             (let reconcileFrequency = getInfoProp state ''reconcileFrequency'' in
              showReviewPublishers
                (js_plus reconcileStamp
                   (js_times (js_minus reconcileFrequency (JNum (Fin 2))) (JNum (Fin miliseconds_day)))))
           else [])
        else if shouldShowNotificationAddFunds e now then showAddFunds now
        else [])
     else if js_lt (js_minus reconcileStamp (JNum (Fin (of_nat now))))
               (JNum (Fin (2 * miliseconds_day))) then
       (if truthy (sufficientBalanceToReconcile state) \<and> shouldShowNotificationReviewPublishers e now
        then showReviewPublishers (js_plus (JNum (Fin (of_nat now))) (JNum (Fin miliseconds_day)))
        else [])
     else [])"

definition showDisabledNotifications :: "env \<Rightarrow> nat \<Rightarrow> app_state \<Rightarrow> action list" where
  "showDisabledNotifications e now state =
    (if \<not> truthy (getSetting e PAYMENTS_NOTIFICATION_TRY_PAYMENTS_DISMISSED) then
       (let firstRun = firstRunTimestamp state in
        if js_lt (js_minus (JNum (Fin (of_nat now))) firstRun) (delayNotificationTryPayments e) then []
        else [ShowNotification tryPaymentsNotification])
     else [])"

definition onInterval :: "env \<Rightarrow> nat \<Rightarrow> app_state \<Rightarrow> action list" where
  "onInterval e now state =
    (if truthy (getSetting e PAYMENTS_ENABLED) then
       (if truthy (getSetting e PAYMENTS_NOTIFICATIONS) then showEnabledNotifications e now state
        else [])
     else showDisabledNotifications e now state)"

text \<open>
  Modelled from the spec: \<open>appActions.changeSetting\<close> is not among the sources; it writes
  the persisted setting that \<open>getSetting\<close> reads on later ticks, and showing a notification
  leaves the settings alone.
\<close>

fun applyAction :: "(setting \<Rightarrow> jsval) \<Rightarrow> action \<Rightarrow> (setting \<Rightarrow> jsval)" where
  "applyAction store (ChangeSetting k v) = store(k := v)"
| "applyAction store (ShowNotification n) = store"

text \<open>
  A run of the timer: each tick has its clock reading and the snapshot it is given, and
  sees the settings as the earlier ticks left them. The result lists what each tick
  emitted.
\<close>

fun run :: "env \<Rightarrow> (nat \<times> app_state) list \<Rightarrow> action list list" where
  "run e [] = []"
| "run e ((now, state) # ticks) =
    (let acts = onInterval e now state in
     acts # run (e\<lparr>getSetting := foldl applyAction (getSetting e) acts\<rparr>) ticks)"

fun settingsAfter :: "env \<Rightarrow> (nat \<times> app_state) list \<Rightarrow> (setting \<Rightarrow> jsval)" where
  "settingsAfter e [] = getSetting e"
| "settingsAfter e ((now, state) # ticks) =
    settingsAfter (e\<lparr>getSetting := foldl applyAction (getSetting e) (onInterval e now state)\<rparr>) ticks"

section \<open>Observations and example snapshots\<close>

text \<open>An emitted call shows the notification whose message is \<open>m\<close>.\<close>

definition shows_message :: "l10n \<Rightarrow> action \<Rightarrow> bool" where
  "shows_message m a =
    (case a of ChangeSetting k v \<Rightarrow> False | ShowNotification n \<Rightarrow> n_message n = m)"

text \<open>Concrete snapshots, settings and telemetry, used to run the functions above.\<close>

definition emptyPublisher :: publisher where
  "emptyPublisher =
    \<lparr>duration = Undefined, visits = Undefined, scores = (\<lambda>k. Undefined), options = (\<lambda>k. Undefined)\<rparr>"

definition emptyState :: app_state where
  "emptyState =
    \<lparr>siteSettings = (\<lambda>pattern k. Undefined),
     synopsisOptions = (\<lambda>k. Undefined),
     publishers = (\<lambda>key. emptyPublisher),
     info = (\<lambda>k. Undefined),
     firstRunTimestamp = Undefined\<rparr>"

definition paymentsOn :: env where
  "paymentsOn =
    \<lparr>getSetting = (\<lambda>k. Undefined)
       (PAYMENTS_ENABLED := JBool True, PAYMENTS_NOTIFICATIONS := JBool True,
        PAYMENTS_ALLOW_NON_VERIFIED := JBool True),
     getHostPattern = (\<lambda>key. ''https?://'' @ key),
     delayNotificationTryPayments = JNum (Fin (3 * miliseconds_day))\<rparr>"

text \<open>The settings of \<open>paymentsOn\<close> with both next-eligible timestamps stored as \<open>T\<close>.\<close>

definition snoozed :: "rat \<Rightarrow> env" where
  "snoozed T =
    paymentsOn\<lparr>getSetting := (getSetting paymentsOn)
      (PAYMENTS_NOTIFICATION_RECONCILE_SOON_TIMESTAMP := JNum (Fin T),
       PAYMENTS_NOTIFICATION_ADD_FUNDS_TIMESTAMP := JNum (Fin T))\<rparr>"

text \<open>A wallet that reconciles at time 2000, every 30 days.\<close>

definition wallet :: "rat \<Rightarrow> rat \<Rightarrow> rat \<Rightarrow> app_state" where
  "wallet balance unconfirmed bat =
    emptyState\<lparr>info := (\<lambda>k. Undefined)
      (''balance'' := JNum (Fin balance), ''unconfirmed'' := JNum (Fin unconfirmed),
       ''bat'' := JNum (Fin bat), ''reconcileStamp'' := JNum (Fin 2000),
       ''reconcileFrequency'' := JNum (Fin 30))\<rparr>"

definition oneSite :: app_state where
  "oneSite =
    emptyState\<lparr>
      synopsisOptions := (\<lambda>k. Undefined)
        (''scorekeeper'' := JStr ''concave'', ''minPublisherDuration'' := JNum (Fin 8000),
         ''minPublisherVisits'' := JNum (Fin 1)),
      publishers := (\<lambda>key. emptyPublisher)
        (''brave.com'' :=
           \<lparr>duration = JNum (Fin 10000), visits = JNum (Fin 2),
            scores = (\<lambda>k. Undefined)(JStr ''concave'' := JNum (Fin (7 / 2))),
            options = (\<lambda>k. Undefined)(''verified'' := JBool True)\<rparr>)\<rparr>"

text \<open>The same site, excluded by its own option; and excluded, but pinned by a site setting.\<close>

definition excludedSite :: app_state where
  "excludedSite =
    oneSite\<lparr>publishers := (publishers oneSite)
      (''brave.com'' := (publishers oneSite ''brave.com'')
         \<lparr>options := (\<lambda>k. Undefined)(''exclude'' := JBool True)\<rparr>)\<rparr>"

definition pinnedSite :: app_state where
  "pinnedSite =
    excludedSite\<lparr>siteSettings := (\<lambda>pattern k. Undefined)
      (''https?://brave.com'' := (\<lambda>k. Undefined)(''ledgerPayments'' := JBool True))\<rparr>"

text \<open>The ledger data of the repository's test of \<open>batToCurrencyString\<close>.\<close>

definition ratedLedger :: ledgerData where
  "ratedLedger =
    \<lparr>props = (\<lambda>k. Undefined)(''currentRate'' := JStr ''2''),
     transactions = None,
     rates = Some (Map.empty(''BTC'' \<mapsto> JNum (Fin (2222 / 10000))))\<rparr>"

definition createdWallet :: ledgerData where
  "createdWallet =
    \<lparr>props = (\<lambda>k. Undefined)
       (''created'' := JBool True, ''unconfirmed'' := JNum (Fin 0),
        ''balance'' := JNum (Fin 5), ''bat'' := JNum (Fin 1)),
     transactions = Some [],
     rates = None\<rparr>"

definition threeSegments :: imap where
  "threeSegments =
    (\<lambda>k. Undefined)(''st'' := JStr ''11.338,21.339,25.000'', ''et'' := JStr ''21.339,25.000,26.100'')"

definition oneSegment :: imap where
  "oneSegment = (\<lambda>k. Undefined)(''st'' := JStr ''11.338'', ''et'' := JStr ''21.339'')"

definition tinySegment :: imap where
  "tinySegment = (\<lambda>k. Undefined)(''st'' := JStr ''0'', ''et'' := JStr ''0.00000000035'')"

section \<open>Operators on numbers\<close>

lemma truthy_simps [simp]:
  "truthy Undefined = False" "truthy Null = False" "truthy (JBool b) = b"
  "truthy (JNum NaN) = False" "truthy (JNum (Fin x)) = (x \<noteq> 0)"
  "truthy (JStr s) = (s \<noteq> [])" "truthy (JObj s) = True"
  by (simp_all add: truthy_def)

lemma to_number_JNum [simp]: "to_number (JNum n) = n"
  by (simp add: to_number_def)

lemma is_stringy_simps [simp]:
  "is_stringy Undefined = False" "is_stringy Null = False" "is_stringy (JBool b) = False"
  "is_stringy (JNum n) = False" "is_stringy (JStr s) = True" "is_stringy (JObj s) = True"
  by (simp_all add: is_stringy_def)

lemma js_arith_JNum [simp]:
  "js_minus (JNum a) (JNum b) = JNum (num_sub a b)"
  "js_times (JNum a) (JNum b) = JNum (num_mul a b)"
  "js_plus (JNum a) (JNum b) = JNum (num_add a b)"
  by (simp_all add: js_minus_def js_times_def js_plus_def)

lemma js_cmp_JNum [simp]:
  "js_lt (JNum a) (JNum b) = num_lt a b"
  "js_gt (JNum a) (JNum b) = num_lt b a"
  "js_ge (JNum a) (JNum b) = num_ge a b"
  by (simp_all add: js_lt_def js_gt_def js_ge_def)

lemma Number_or_zero [simp]: "to_number (js_or (JNum (Fin b)) (JNum (Fin 0))) = Fin b"
  by (simp add: js_or_def)

lemma js_or_JBool [simp]: "js_or (JBool a) v = (if a then JBool True else v)"
  by (simp add: js_or_def)

lemma js_and_JBool [simp]: "js_and (JBool a) v = (if a then v else JBool False)"
  by (simp add: js_and_def)

text \<open>A number that is at least a threshold stays so when it grows, whatever the threshold is.\<close>

lemma js_ge_num_mono:
  assumes "js_ge (JNum (Fin a)) m" and "a \<le> a'"
  shows "js_ge (JNum (Fin a')) m"
proof -
  from assms(1) obtain x where "to_number m = Fin x" "x \<le> a"
    by (cases "to_number m") (simp_all add: js_ge_def)
  with assms(2) show ?thesis by (simp add: js_ge_def)
qed

section \<open>The notification scheduler\<close>








subsection \<open>Cool-down over a run of ticks\<close>

lemma foldl_applyAction_unchanged:
  "\<forall>a \<in> set acts. \<forall>v. a \<noteq> ChangeSetting k v \<Longrightarrow> foldl applyAction store acts k = store k"
proof (induction acts arbitrary: store)
  case Nil
  then show ?case by simp
next
  case (Cons a acts)
  then show ?case by (cases a) auto
qed

text \<open>
  While the stored timestamp of a kind lies after the clock, a tick neither shows that
  kind nor rewrites its timestamp.
\<close>

lemma onInterval_review_snoozed:
  assumes "getSetting e PAYMENTS_NOTIFICATION_RECONCILE_SOON_TIMESTAMP = JNum (Fin T)"
      and "of_nat now < T"
  shows "\<forall>a \<in> set (onInterval e now state).
           \<not> shows_message text_reconciliation a
           \<and> (\<forall>v. a \<noteq> ChangeSetting PAYMENTS_NOTIFICATION_RECONCILE_SOON_TIMESTAMP v)"
proof -
  have "T \<noteq> 0" using assms(2) by (metis of_nat_0_le_iff not_less)
  with assms have "\<not> shouldShowNotificationReviewPublishers e now"
    by (simp add: shouldShowNotificationReviewPublishers_def)
  then show ?thesis
    by (auto simp: onInterval_def showEnabledNotifications_def showDisabledNotifications_def
        showAddFunds_def shows_message_def addFundsNotification_def tryPaymentsNotification_def
        text_reconciliation_def text_addFunds_def text_tryPayments_def Let_def)
qed

lemma onInterval_addFunds_snoozed:
  assumes "getSetting e PAYMENTS_NOTIFICATION_ADD_FUNDS_TIMESTAMP = JNum (Fin T)"
      and "of_nat now < T"
  shows "\<forall>a \<in> set (onInterval e now state).
           \<not> shows_message text_addFunds a
           \<and> (\<forall>v. a \<noteq> ChangeSetting PAYMENTS_NOTIFICATION_ADD_FUNDS_TIMESTAMP v)"
proof -
  have "T \<noteq> 0" using assms(2) by (metis of_nat_0_le_iff not_less)
  with assms have "\<not> shouldShowNotificationAddFunds e now"
    by (simp add: shouldShowNotificationAddFunds_def)
  then show ?thesis
    by (auto simp: onInterval_def showEnabledNotifications_def showDisabledNotifications_def
        showReviewPublishers_def shows_message_def reviewPublishersNotification_def
        tryPaymentsNotification_def text_reconciliation_def text_addFunds_def
        text_tryPayments_def Let_def)
qed

lemma run_snoozed:
  assumes step: "\<And>e now state. getSetting e k = JNum (Fin T) \<Longrightarrow> of_nat now < T \<Longrightarrow>
            \<forall>a \<in> set (onInterval e now state). \<not> shows_message m a \<and> (\<forall>v. a \<noteq> ChangeSetting k v)"
      and "getSetting e k = JNum (Fin T)"
      and "\<forall>(now, state) \<in> set ticks. of_nat now < T"
  shows "(\<forall>acts \<in> set (run e ticks). \<forall>a \<in> set acts. \<not> shows_message m a)
         \<and> settingsAfter e ticks k = JNum (Fin T)"
  using assms(2,3)
proof (induction ticks arbitrary: e)
  case Nil
  then show ?case by simp
next
  case (Cons tick ticks)
  obtain now state where tick: "tick = (now, state)" by (cases tick)
  let ?acts = "onInterval e now state"
  let ?e' = "e\<lparr>getSetting := foldl applyAction (getSetting e) ?acts\<rparr>"
  have now: "of_nat now < T" using Cons.prems(2) tick by simp
  have quiet: "\<forall>a \<in> set ?acts. \<not> shows_message m a \<and> (\<forall>v. a \<noteq> ChangeSetting k v)"
    using step [OF Cons.prems(1) now] .
  then have "getSetting ?e' k = JNum (Fin T)"
    using Cons.prems(1) by (simp add: foldl_applyAction_unchanged)
  moreover have "\<forall>(now, state) \<in> set ticks. of_nat now < T"
    using Cons.prems(2) by simp
  ultimately have "(\<forall>acts \<in> set (run ?e' ticks). \<forall>a \<in> set acts. \<not> shows_message m a)
         \<and> settingsAfter ?e' ticks k = JNum (Fin T)"
    by (rule Cons.IH)
  with quiet show ?case by (simp add: tick Let_def)
qed

text \<open>
  Without a stored timestamp the first of two ticks shows the review notification and
  stores its timestamp; the second, one minute before reconciliation, shows nothing.
\<close>

lemma run_unsnoozed:
  "run paymentsOn [(1000, wallet 10 0 10), (1900, wallet 10 0 10)] =
     [[ChangeSetting PAYMENTS_NOTIFICATION_RECONCILE_SOON_TIMESTAMP
         (JNum (Fin (2000 + 28 * miliseconds_day))),
       ShowNotification reviewPublishersNotification], []]"
  by (simp add: onInterval_def showEnabledNotifications_def paymentsOn_def wallet_def
      getInfoProp_def sufficientBalanceToReconcile_def js_and_def
      shouldShowNotificationReviewPublishers_def showReviewPublishers_def miliseconds_day_def
      emptyState_def)

text \<open>
  Ticks that all occur before the stored instant \<open>T\<close> of a kind do not show that kind,
  and leave its timestamp at \<open>T\<close>.
\<close>

lemma cooldown_window:
  assumes "\<forall>(now, state) \<in> set ticks. of_nat now < T"
  shows "(getSetting e PAYMENTS_NOTIFICATION_RECONCILE_SOON_TIMESTAMP = JNum (Fin T) \<longrightarrow>
            (\<forall>acts \<in> set (run e ticks). \<forall>a \<in> set acts. \<not> shows_message text_reconciliation a)
            \<and> settingsAfter e ticks PAYMENTS_NOTIFICATION_RECONCILE_SOON_TIMESTAMP = JNum (Fin T))
       \<and> (getSetting e PAYMENTS_NOTIFICATION_ADD_FUNDS_TIMESTAMP = JNum (Fin T) \<longrightarrow>
            (\<forall>acts \<in> set (run e ticks). \<forall>a \<in> set acts. \<not> shows_message text_addFunds a)
            \<and> settingsAfter e ticks PAYMENTS_NOTIFICATION_ADD_FUNDS_TIMESTAMP = JNum (Fin T))"
proof -
  have review: "(\<forall>acts \<in> set (run e ticks). \<forall>a \<in> set acts. \<not> shows_message text_reconciliation a)
            \<and> settingsAfter e ticks PAYMENTS_NOTIFICATION_RECONCILE_SOON_TIMESTAMP = JNum (Fin T)"
    if stored: "getSetting e PAYMENTS_NOTIFICATION_RECONCILE_SOON_TIMESTAMP = JNum (Fin T)"
  proof (rule run_snoozed)
    show "\<forall>a \<in> set (onInterval e' now state).
            \<not> shows_message text_reconciliation a
            \<and> (\<forall>v. a \<noteq> ChangeSetting PAYMENTS_NOTIFICATION_RECONCILE_SOON_TIMESTAMP v)"
      if "getSetting e' PAYMENTS_NOTIFICATION_RECONCILE_SOON_TIMESTAMP = JNum (Fin T)"
        and "of_nat now < T" for e' now state
      using that by (rule onInterval_review_snoozed)
    show "getSetting e PAYMENTS_NOTIFICATION_RECONCILE_SOON_TIMESTAMP = JNum (Fin T)"
      by (rule stored)
    show "\<forall>(now, state) \<in> set ticks. of_nat now < T"
      by (rule assms)
  qed
  have addFunds: "(\<forall>acts \<in> set (run e ticks). \<forall>a \<in> set acts. \<not> shows_message text_addFunds a)
            \<and> settingsAfter e ticks PAYMENTS_NOTIFICATION_ADD_FUNDS_TIMESTAMP = JNum (Fin T)"
    if stored: "getSetting e PAYMENTS_NOTIFICATION_ADD_FUNDS_TIMESTAMP = JNum (Fin T)"
  proof (rule run_snoozed)
    show "\<forall>a \<in> set (onInterval e' now state).
            \<not> shows_message text_addFunds a
            \<and> (\<forall>v. a \<noteq> ChangeSetting PAYMENTS_NOTIFICATION_ADD_FUNDS_TIMESTAMP v)"
      if "getSetting e' PAYMENTS_NOTIFICATION_ADD_FUNDS_TIMESTAMP = JNum (Fin T)"
        and "of_nat now < T" for e' now state
      using that by (rule onInterval_addFunds_snoozed)
    show "getSetting e PAYMENTS_NOTIFICATION_ADD_FUNDS_TIMESTAMP = JNum (Fin T)"
      by (rule stored)
    show "\<forall>(now, state) \<in> set ticks. of_nat now < T"
      by (rule assms)
  qed
  from review addFunds show ?thesis by blast
qed

text \<open>What the first ticks of a run emit does not depend on the ticks that follow.\<close>

lemma length_run [simp]: "length (run e ticks) = length ticks"
  by (induction ticks arbitrary: e) (auto simp: Let_def)

lemma run_take: "run e (take n ticks) = take n (run e ticks)"
proof (induction ticks arbitrary: n e)
  case Nil
  then show ?case by simp
next
  case (Cons tick ticks)
  obtain now state where "tick = (now, state)" by (cases tick)
  then show ?case using Cons.IH by (cases n) (simp_all add: Let_def)
qed

text \<open>The clock does not run backwards: up to a tick before \<open>T\<close>, every tick is before \<open>T\<close>.\<close>

lemma window_prefix:
  assumes "sorted (map fst ticks)" and "i < length ticks"
      and "of_nat (fst (ticks ! i)) < (T :: rat)"
  shows "\<forall>(now, state) \<in> set (take (Suc i) ticks). of_nat now < T"
proof -
  have below: "of_nat (fst (ticks ! j)) < T" if "j \<le> i" for j
  proof -
    have "map fst ticks ! j \<le> map fst ticks ! i"
      using assms(1,2) that by (intro sorted_nth_mono) simp_all
    then have "fst (ticks ! j) \<le> fst (ticks ! i)"
      using assms(2) that by simp
    then have "(of_nat (fst (ticks ! j)) :: rat) \<le> of_nat (fst (ticks ! i))"
      by simp
    with assms(3) show ?thesis by simp
  qed
  have "of_nat (fst x) < T" if "x \<in> set (take (Suc i) ticks)" for x
  proof -
    from that obtain j where "j < Suc i" "j < length ticks" "x = ticks ! j"
      by (auto simp: in_set_conv_nth)
    with below [of j] show ?thesis by simp
  qed
  then show ?thesis by auto
qed

text \<open>
  C4. For every sequence of scheduler ticks (in the order of their clock readings, each
  with a snapshot of its own) and each of the two kinds with a persisted timestamp
  (ReviewPublishers, AddFunds): if the kind's next-eligible timestamp is set to the
  instant \<open>T\<close>, then no tick of the sequence that occurs before \<open>T\<close> shows that kind, and
  after the ticks up to that one the timestamp is still \<open>T\<close>. So each kind fires at most
  once within its own cool-down window.
\<close>

theorem cooldown:
  assumes "sorted (map fst ticks)" and "i < length ticks" and "of_nat (fst (ticks ! i)) < T"
  shows "(getSetting e PAYMENTS_NOTIFICATION_RECONCILE_SOON_TIMESTAMP = JNum (Fin T) \<longrightarrow>
            (\<forall>a \<in> set (run e ticks ! i). \<not> shows_message text_reconciliation a)
            \<and> settingsAfter e (take (Suc i) ticks) PAYMENTS_NOTIFICATION_RECONCILE_SOON_TIMESTAMP
                = JNum (Fin T))
       \<and> (getSetting e PAYMENTS_NOTIFICATION_ADD_FUNDS_TIMESTAMP = JNum (Fin T) \<longrightarrow>
            (\<forall>a \<in> set (run e ticks ! i). \<not> shows_message text_addFunds a)
            \<and> settingsAfter e (take (Suc i) ticks) PAYMENTS_NOTIFICATION_ADD_FUNDS_TIMESTAMP
                = JNum (Fin T))"
proof -
  have window: "\<forall>(now, state) \<in> set (take (Suc i) ticks). of_nat now < T"
    using assms by (rule window_prefix)
  have "run e (take (Suc i) ticks) ! i = run e ticks ! i"
    by (simp add: run_take)
  moreover have "i < length (run e (take (Suc i) ticks))"
    using assms(2) by simp
  ultimately have here: "run e ticks ! i \<in> set (run e (take (Suc i) ticks))"
    by (metis nth_mem)
  show ?thesis
    using cooldown_window [OF window, of e] here by blast
qed

theorem cooldown_witness:
  "list_all (\<lambda>a. \<not> shows_message text_reconciliation a)
     (run (snoozed 5000) [(1000, wallet 10 0 10), (1900, wallet 10 0 10)] ! 1)
   \<and> list_all (\<lambda>a. \<not> shows_message text_addFunds a)
     (run (snoozed 5000) [(1000, wallet 5 0 10), (1900, wallet 5 0 10)] ! 1)
   \<and> settingsAfter (snoozed 5000) [(1000, wallet 10 0 10), (1900, wallet 10 0 10)]
        PAYMENTS_NOTIFICATION_RECONCILE_SOON_TIMESTAMP = JNum (Fin 5000)
   \<and> run paymentsOn [(1000, wallet 10 0 10), (1900, wallet 10 0 10)] =
       [[ChangeSetting PAYMENTS_NOTIFICATION_RECONCILE_SOON_TIMESTAMP
           (JNum (Fin (2000 + 28 * miliseconds_day))),
         ShowNotification reviewPublishersNotification], []]"
  using cooldown [of "[(1000, wallet 10 0 10), (1900, wallet 10 0 10)]" 1 5000 "snoozed 5000"]
        cooldown [of "[(1000, wallet 5 0 10), (1900, wallet 5 0 10)]" 1 5000 "snoozed 5000"]
        run_unsnoozed
  by (simp add: snoozed_def list_all_iff)

section \<open>Media telemetry\<close>

lemma getYouTubeDuration_threeSegments:
  "getYouTubeDuration (Some threeSegments) = Inr (Fin 14762)"
  by code_simp

lemma getYouTubeDuration_oneSegment:
  "getYouTubeDuration (Some oneSegment) = Inr (Fin 10001)"
  by code_simp

lemma getYouTubeDuration_null: "getYouTubeDuration None = Inr (Fin 0)"
  by (simp add: getYouTubeDuration_def)

lemma getYouTubeDuration_missing:
  "is_nullish (d ''st'') \<or> is_nullish (d ''et'') \<Longrightarrow> getYouTubeDuration (Some d) = Inr (Fin 0)"
  by (simp add: getYouTubeDuration_def)

lemma getYouTubeDuration_mismatch:
  assumes "d ''st'' = JStr st" and "d ''et'' = JStr et"
      and "length (split_at CHR '','' st) \<noteq> length (split_at CHR '','' et)"
  shows "getYouTubeDuration (Some d) = Inr (Fin 0)"
  using assms by (simp add: getYouTubeDuration_def is_nullish_def)

text \<open>The loop adds up \<open>parseFloat(endTime[j]) - parseFloat(startTime[j])\<close> over the indices.\<close>

lemma durationLoop_foldl:
  "durationLoop startTime endTime i time =
     foldl (\<lambda>acc j. num_add acc
              (num_sub (parseFloat (js_index endTime j)) (parseFloat (js_index startTime j))))
       time [i..<length startTime]"
proof (induction startTime endTime i time rule: durationLoop.induct)
  case (1 startTime endTime i time)
  show ?case
  proof (cases "i < length startTime")
    case True
    with "1" show ?thesis
      by (subst durationLoop.simps) (simp add: upt_conv_Cons)
  next
    case False
    then show ?thesis
      by (subst durationLoop.simps) simp
  qed
qed

text \<open>
  When every segment reads as a number, the loop yields the sum of the differences, and
  the function returns \<open>parseInt\<close> of that sum in milliseconds.
\<close>

lemma durationLoop_sum:
  assumes "length endTime = length startTime"
      and "\<forall>j < length startTime. parseFloat (JStr (startTime ! j)) = Fin (s j)"
      and "\<forall>j < length startTime. parseFloat (JStr (endTime ! j)) = Fin (t j)"
  shows "durationLoop startTime endTime i (Fin a)
           = Fin (a + (\<Sum>j = i..<length startTime. t j - s j))"
  using assms
proof (induction startTime endTime i "Fin a" arbitrary: a rule: durationLoop.induct)
  case (1 startTime endTime i)
  show ?case
  proof (cases "i < length startTime")
    case True
    have step: "num_add (Fin a)
                  (num_sub (parseFloat (js_index endTime i)) (parseFloat (js_index startTime i)))
                 = Fin (a + (t i - s i))"
      using True "1.prems" by (simp add: js_index_def)
    have "durationLoop startTime endTime i (Fin a)
            = durationLoop startTime endTime (Suc i) (Fin (a + (t i - s i)))"
      using True step by (subst durationLoop.simps) simp
    also have "\<dots> = Fin (a + (t i - s i) + (\<Sum>j = Suc i..<length startTime. t j - s j))"
      using True step "1.prems" by (intro "1.hyps") simp_all
    also have "\<dots> = Fin (a + (\<Sum>j = i..<length startTime. t j - s j))"
      using True by (simp add: sum.atLeast_Suc_lessThan)
    finally show ?thesis .
  next
    case False
    then show ?thesis
      by (subst durationLoop.simps) simp
  qed
qed

lemma getYouTubeDuration_sum:
  assumes "d ''st'' = JStr st" and "d ''et'' = JStr et"
      and "length (split_at CHR '','' et) = length (split_at CHR '','' st)"
      and "\<forall>j < length (split_at CHR '','' st).
             parseFloat (JStr (split_at CHR '','' st ! j)) = Fin (s j)"
      and "\<forall>j < length (split_at CHR '','' st).
             parseFloat (JStr (split_at CHR '','' et ! j)) = Fin (t j)"
  shows "getYouTubeDuration (Some d) =
           Inr (parseInt (JNum (Fin ((\<Sum>j < length (split_at CHR '','' st). t j - s j) * 1000))))"
  using assms durationLoop_sum [OF assms(3,4,5), of 0 0]
  by (simp add: getYouTubeDuration_def is_nullish_def Let_def lessThan_atLeast0)

text \<open>
  C5. \<open>getYouTubeDuration\<close> is to return the sum of \<open>end[i] - start[i]\<close> in milliseconds,
  truncated to an integer. The two results of the repository's tests (14762 and 10001),
  the 0 for lists of different lengths and the 0 for \<open>null\<close> hold (the lemmas above). The
  truncation is done by \<open>parseInt\<close>, which reads the digits of the number as printed: a
  total below \<open>1e-6\<close> ms is printed in exponent notation, and for the segment from \<open>0\<close> to
  \<open>0.00000000035\<close> seconds (\<open>3.5e-7\<close> ms, printed \<open>3.5e-7\<close>) the result is 3, where the
  truncated total is 0.
\<close>

theorem getYouTubeDuration_tiny:
  "getYouTubeDuration (Some tinySegment) = Inr (Fin 3)
   \<and> parseFloat (JStr ''0.00000000035'') = Fin (35 / 100000000000)
   \<and> to_string (JNum (Fin ((35 / 100000000000 - 0) * 1000))) = ''3.5e-7''
   \<and> \<lfloor>((35 / 100000000000 :: rat) - 0) * 1000\<rfloor> = 0"
  by code_simp

lemma toLowerCase_YOUTUBE: "toLowerCase ''YOUTUBE'' = ''youtube''"
  by code_simp

text \<open>
  C8, as stated: for a provider type and a media id that are not \<open>null\<close>, the media key is
  the lowercased provider name, the separator \<open>:\<close>, and the id. The code joins the two
  with an underscore, so the statement fails on the key of the repository's own test
  (\<open>getMediaKey('kLiLOkzLetE', YOUTUBE)\<close> is \<open>youtube_kLiLOkzLetE\<close>).
\<close>

theorem getMediaKey_colon_counterexample:
  "getMediaKey (JStr ''kLiLOkzLetE'') (JStr ''YOUTUBE'') = Inr (JStr ''youtube_kLiLOkzLetE'')
   \<and> getMediaKey (JStr ''kLiLOkzLetE'') (JStr ''YOUTUBE'')
       \<noteq> Inr (JStr (toLowerCase ''YOUTUBE'' @ '':'' @ ''kLiLOkzLetE''))"
  by code_simp

text \<open>
  C8, amended: for every provider type that is a string and every id that is neither
  \<open>null\<close> nor \<open>undefined\<close>, \<open>getMediaKey\<close> returns the lowercased provider name, an
  underscore, and the id (as the template string converts it); when the id or the type is
  \<open>null\<close> or \<open>undefined\<close> it returns \<open>null\<close>.
\<close>

theorem getMediaKey_underscore:
  "(ident \<noteq> Null \<and> ident \<noteq> Undefined
      \<longrightarrow> getMediaKey ident (JStr t) = Inr (JStr (toLowerCase t @ ''_'' @ to_string ident)))
   \<and> (ident = Null \<or> ident = Undefined \<or> type = Null \<or> type = Undefined
      \<longrightarrow> getMediaKey ident type = Inr Null)"
  by (auto simp: getMediaKey_def is_nullish_def)

theorem getMediaKey_underscore_witness:
  "getMediaKey (JStr ''kLiLOkzLetE'') (JStr ''YOUTUBE'') = Inr (JStr ''youtube_kLiLOkzLetE'')
   \<and> getMediaKey Null (JStr ''YOUTUBE'') = Inr Null"
  using getMediaKey_underscore [of "JStr ''kLiLOkzLetE''" "''YOUTUBE''" "JStr ''YOUTUBE''"]
        getMediaKey_underscore [of Null "''YOUTUBE''" "JStr ''YOUTUBE''"]
        toLowerCase_YOUTUBE
  by (simp add: to_string_def)

section \<open>Publisher eligibility\<close>

text \<open>
  C6. For every ledger state and publisher key whose site setting \<open>ledgerPayments\<close> is
  absent or a boolean and whose \<open>exclude\<close> option is absent, \<open>null\<close> or a boolean:
  \<open>contributeP\<close> is true if and only if (\<open>stickyP\<close> holds or the \<open>exclude\<close> option is not
  strictly \<open>true\<close>) and \<open>eligibleP\<close> holds and \<open>blockedP\<close> does not; and \<open>stickyP\<close> is the
  site setting when there is one, else the inverted \<open>exclude\<close> option when there is one,
  else \<open>true\<close>.
\<close>

theorem contributeP_iff:
  assumes "getSettingsProp state (getHostPattern e key) ''ledgerPayments'' = lp"
      and "lp = Undefined \<or> (\<exists>b. lp = JBool b)"
      and "getPublisherOption state key ''exclude'' = ex"
      and "ex = Undefined \<or> ex = Null \<or> (\<exists>b. ex = JBool b)"
  shows "contributeP e state key =
           JBool ((truthy (stickyP e state key) \<or> ex \<noteq> JBool True)
                  \<and> eligibleP state key \<and> \<not> blockedP e state key)
         \<and> stickyP e state key =
           JBool (case lp of JBool b \<Rightarrow> b
                  | _ \<Rightarrow> (case ex of JBool x \<Rightarrow> \<not> x | _ \<Rightarrow> True))"
proof -
  have sticky: "stickyP e state key =
           JBool (case lp of JBool b \<Rightarrow> b
                  | _ \<Rightarrow> (case ex of JBool x \<Rightarrow> \<not> x | _ \<Rightarrow> True))"
    using assms by (auto simp: stickyP_def is_nullish_def Let_def)
  have ex: "options (getPublisher state key) ''exclude'' = ex"
    using assms(3) by (simp add: getPublisherOption_def getPublisher_def)
  have "contributeP e state key =
           JBool ((truthy (stickyP e state key) \<or> ex \<noteq> JBool True)
                  \<and> eligibleP state key \<and> \<not> blockedP e state key)"
    unfolding contributeP_def Let_def ex sticky by simp
  with sticky show ?thesis by simp
qed

theorem contributeP_iff_witness:
  "contributeP paymentsOn oneSite ''brave.com'' = JBool True
   \<and> stickyP paymentsOn oneSite ''brave.com'' = JBool True
   \<and> contributeP paymentsOn excludedSite ''brave.com'' = JBool False
   \<and> stickyP paymentsOn excludedSite ''brave.com'' = JBool False
   \<and> contributeP paymentsOn pinnedSite ''brave.com'' = JBool True
   \<and> stickyP paymentsOn pinnedSite ''brave.com'' = JBool True"
proof -
  have e: "eligibleP oneSite ''brave.com''" "eligibleP excludedSite ''brave.com''"
    "eligibleP pinnedSite ''brave.com''"
    by code_simp+
  have b: "\<not> blockedP paymentsOn oneSite ''brave.com''"
    "\<not> blockedP paymentsOn excludedSite ''brave.com''"
    "\<not> blockedP paymentsOn pinnedSite ''brave.com''"
    by code_simp+
  have one:
    "getSettingsProp oneSite (getHostPattern paymentsOn ''brave.com'') ''ledgerPayments'' = Undefined"
    "getPublisherOption oneSite ''brave.com'' ''exclude'' = Undefined"
    by code_simp+
  have excluded:
    "getSettingsProp excludedSite (getHostPattern paymentsOn ''brave.com'') ''ledgerPayments'' = Undefined"
    "getPublisherOption excludedSite ''brave.com'' ''exclude'' = JBool True"
    by code_simp+
  have pinned:
    "getSettingsProp pinnedSite (getHostPattern paymentsOn ''brave.com'') ''ledgerPayments'' = JBool True"
    "getPublisherOption pinnedSite ''brave.com'' ''exclude'' = JBool True"
    by code_simp+
  have absent: "Undefined = Undefined \<or> (\<exists>b. Undefined = JBool b)"
    "Undefined = Undefined \<or> Undefined = Null \<or> (\<exists>b. Undefined = JBool b)"
    by simp_all
  have bool: "JBool True = Undefined \<or> (\<exists>b. JBool True = JBool b)"
    "JBool True = Undefined \<or> JBool True = Null \<or> (\<exists>b. JBool True = JBool b)"
    by blast+
  show ?thesis
    using e b
      contributeP_iff [OF one(1) absent(1) one(2) absent(2)]
      contributeP_iff [OF excluded(1) absent(1) excluded(2) bool(2)]
      contributeP_iff [OF pinned(1) bool(1) pinned(2) bool(2)]
    by simp
qed

text \<open>
  C7. \<open>eligibleP\<close> is monotonic in visit count and duration: if a publisher is eligible
  in a state, then it is eligible in every state with the same synopsis options (the
  scorekeeper and the two thresholds) and the same score under the scorekeeper, in which
  its numeric duration and its numeric visit count are the same or larger.
\<close>

theorem eligibleP_monotone:
  assumes "eligibleP state key"
      and "synopsisOptions state' = synopsisOptions state"
      and "scores (getPublisher state' key) (getSynopsisOption state ''scorekeeper'')
             = scores (getPublisher state key) (getSynopsisOption state ''scorekeeper'')"
      and "duration (getPublisher state key) = JNum (Fin d)"
      and "duration (getPublisher state' key) = JNum (Fin d')"
      and "d \<le> d'"
      and "visits (getPublisher state key) = JNum (Fin v)"
      and "visits (getPublisher state' key) = JNum (Fin v')"
      and "v \<le> v'"
  shows "eligibleP state' key"
proof -
  have opts: "getSynopsisOption state' p = getSynopsisOption state p" for p
    using assms(2) by (simp add: getSynopsisOption_def)
  from assms(1) have
    score: "js_gt (scores (getPublisher state key) (getSynopsisOption state ''scorekeeper'')) (JNum (Fin 0))"
    and dur: "js_ge (JNum (Fin d)) (getSynopsisOption state ''minPublisherDuration'')"
    and vis: "js_ge (JNum (Fin v)) (getSynopsisOption state ''minPublisherVisits'')"
    using assms(4,7) by (simp_all add: eligibleP_def Let_def)
  from dur assms(6) have "js_ge (JNum (Fin d')) (getSynopsisOption state ''minPublisherDuration'')"
    by (rule js_ge_num_mono)
  moreover from vis assms(9) have "js_ge (JNum (Fin v')) (getSynopsisOption state ''minPublisherVisits'')"
    by (rule js_ge_num_mono)
  ultimately show ?thesis
    using score assms(3,5,8) by (simp add: eligibleP_def Let_def opts)
qed

theorem eligibleP_monotone_witness:
  "eligibleP oneSite ''brave.com''
   \<and> eligibleP (oneSite\<lparr>publishers := (publishers oneSite)
        (''brave.com'' := (publishers oneSite ''brave.com'')
           \<lparr>duration := JNum (Fin 12000), visits := JNum (Fin 3)\<rparr>)\<rparr>) ''brave.com''"
proof -
  have e: "eligibleP oneSite ''brave.com''"
    by code_simp
  show ?thesis
    using e eligibleP_monotone [OF e, of "oneSite\<lparr>publishers := (publishers oneSite)
        (''brave.com'' := (publishers oneSite ''brave.com'')
           \<lparr>duration := JNum (Fin 12000), visits := JNum (Fin 3)\<rparr>)\<rparr>" 10000 12000 2 3]
    by (simp add: oneSite_def getPublisher_def)
qed

text \<open>
  The snapshot that \<open>visibleP\<close> holds when it returns is the one it was given, except
  that an unset \<open>showOnlyVerified\<close> option has been filled in from the setting.
\<close>

lemma visibleP_body_state:
  "snd (visibleP_body e state key) =
     (if is_nullish (getSynopsisOption state ''showOnlyVerified'')
      then setSynopsisOption state ''showOnlyVerified'' (getSetting e PAYMENTS_ALLOW_NON_VERIFIED)
      else state)"
  by (simp add: visibleP_body_def Let_def)

text \<open>
  C9. When \<open>showOnlyVerified\<close> is unset, \<open>visibleP\<close> is to hand the snapshot with the
  cached option back to its caller. On \<open>oneSite\<close>, where the option is unset, the call
  returns the boolean \<open>true\<close> and nothing else: the snapshot with the option cached is the
  value of the local variable only, and the snapshot of the caller, \<open>oneSite\<close>, still has
  the option unset.
\<close>

theorem visibleP_drops_cache:
  "getSynopsisOption oneSite ''showOnlyVerified'' = Undefined
   \<and> visibleP paymentsOn oneSite ''brave.com'' = JBool True
   \<and> getSynopsisOption (snd (visibleP_body paymentsOn oneSite ''brave.com'')) ''showOnlyVerified''
       = JBool True"
  by code_simp

section \<open>Wallet status\<close>

text \<open>The results that the repository's tests expect of \<open>batToCurrencyString\<close>.\<close>

lemma batToCurrencyString_tests:
  "batToCurrencyString Undefined None = ''0.00 USD''"
  "batToCurrencyString (JNum (Fin 1)) None = []"
  "batToCurrencyString (JNum (Fin 1)) (Some (ratedLedger\<lparr>rates := None\<rparr>)) = []"
  "batToCurrencyString (JNum (Fin 5)) (Some ratedLedger) = ''10.00 USD''"
  by code_simp+

lemma toFixed_zero: "toFixed 2 (Fin 0) = ''0.00''"
  by code_simp

lemma num_to_string_5: "num_to_string (Fin 5) = ''5''"
  by code_simp

lemma string_to_number_0005: "string_to_number ''0.005'' = Fin (5 / 1000)"
  by code_simp

text \<open>
  C10. In \<open>walletStatus\<close> the pending funds are the string \<open>Number(unconfirmed).toFixed(2)\<close>,
  and adding the numeric balance to it concatenates. For every ledger data that is
  created and free of errors, with unconfirmed 0, balance 5 and bat 1, the status is
  \<open>insufficientFundsStatus\<close> (with no arguments), although
  \<open>balance + unconfirmed \<ge> 0.9 * bat\<close>: the value compared is \<open>'0.00' + 5 = '0.005'\<close>,
  which as a number is 0.005.
\<close>

theorem walletStatus_concatenates:
  assumes "\<not> truthy (props ld ''error'')"
      and "truthy (props ld ''created'')"
      and "props ld ''unconfirmed'' = JNum (Fin 0)"
      and "props ld ''balance'' = JNum (Fin 5)"
      and "props ld ''bat'' = JNum (Fin 1)"
  shows "walletStatus ld = \<lparr>status_id = ''insufficientFundsStatus'', status_funds = None\<rparr>
         \<and> js_plus (JStr (toFixed 2 (Fin 0))) (JNum (Fin 5)) = JStr ''0.005''
         \<and> to_number (JStr ''0.005'') = Fin (5 / 1000)
         \<and> (9 / 10 * 1 :: rat) \<le> 5 + 0"
proof -
  have concat: "js_plus (JStr ''0.00'') (JNum (Fin 5)) = JStr ''0.005''"
    by (simp add: js_plus_def to_string_def num_to_string_5)
  have num: "to_number (JStr ''0.005'') = Fin (5 / 1000)"
    by (simp add: to_number_def string_to_number_0005)
  have "js_lt (JStr ''0.005'') (JNum (Fin (9 / 10)))"
    by (simp add: js_lt_def num)
  then have "walletStatus ld = \<lparr>status_id = ''insufficientFundsStatus'', status_funds = None\<rparr>"
    using assms by (simp add: walletStatus_def js_or_def toFixed_zero concat)
  with concat num show ?thesis by (simp add: toFixed_zero)
qed

theorem walletStatus_concatenates_witness:
  "walletStatus createdWallet = \<lparr>status_id = ''insufficientFundsStatus'', status_funds = None\<rparr>"
  using walletStatus_concatenates [of createdWallet]
  by (simp add: createdWallet_def)

end
